theory Spec2Isabelle
  imports Complex_Main
begin

section \<open>Spiderfy layout: the offset generators of App.tsx\<close>

text \<open>
  The two layout functions of \<^verbatim>\<open>src/App.tsx\<close> take the number of leaves of a cluster and
  return one pixel offset per leaf. Their only caller passes \<^verbatim>\<open>features.length\<close>, and the
  specification's leaf count is an integer, so \<open>count\<close> and the loop counter \<open>i\<close> are
  integers (\<^typ>\<open>int\<close>; a negative \<open>count\<close> is allowed). The coordinates are JavaScript
  numbers; they are modelled as \<^typ>\<open>real\<close>, and \<^verbatim>\<open>Math.cos\<close>, \<^verbatim>\<open>Math.sin\<close>, \<^verbatim>\<open>Math.PI\<close> as
  \<^const>\<open>cos\<close>, \<^const>\<open>sin\<close>, \<^const>\<open>pi\<close>: the arithmetic is exact, the rounding of IEEE
  doubles is not part of the model. Division by zero, which gives \<^verbatim>\<open>Infinity\<close> in JavaScript
  and \<open>0\<close> in HOL, happens only where the quotient is never read (\<open>theta\<close> for \<open>count = 0\<close>,
  when the loop body does not run); the lemmas \<open>spiral_state_pos\<close> and \<open>spiral_angle_pos\<close>
  show that the two divisors of the spiral loop are never zero.
\<close>

type_synonym point = "real \<times> real"

subsection \<open>calculateSpiderfiedPositionsCircle\<close>

definition circle_leavesSeparation :: real where
  "circle_leavesSeparation = 80"

definition leavesOffset :: "real list" where
  "leavesOffset = [0, 0]"

text \<open>
  The \<^verbatim>\<open>for\<close> loop of lines 210-215. The arguments are the variables the loop reads and
  writes: \<open>count\<close>, \<open>theta\<close>, the counter \<open>i\<close>, \<open>angle\<close> and the array \<open>points\<close>;
  \<^verbatim>\<open>points.push\<close> appends at the end.
\<close>

function circle_loop :: "int \<Rightarrow> real \<Rightarrow> int \<Rightarrow> real \<Rightarrow> point list \<Rightarrow> point list" where
  "circle_loop count theta i angle points =
     (if i < count then
        (let angle = theta * of_int i;
             x = circle_leavesSeparation * cos angle + leavesOffset ! 0;
             y = circle_leavesSeparation * sin angle + leavesOffset ! 1
         in circle_loop count theta (i + 1) angle (points @ [(x, y)]))
      else points)"
  by pat_completeness auto
termination
  by (relation "measure (\<lambda>(count, theta, i, angle, points). nat (count - i))") auto

declare circle_loop.simps [simp del]

definition calculateSpiderfiedPositionsCircle :: "int \<Rightarrow> point list" where
  "calculateSpiderfiedPositionsCircle count =
     (let points = [];
          theta = (2 * pi) / of_int count;
          angle = theta
      in circle_loop count theta 0 angle points)"

subsection \<open>calculateSpiderfiedPositions (the spiral)\<close>

definition legLengthStart :: real where
  "legLengthStart = 25"

definition legLengthFactor :: real where
  "legLengthFactor = 5"

definition spiral_leavesSeparation :: real where
  "spiral_leavesSeparation = 40"

text \<open>
  The \<^verbatim>\<open>for\<close> loop of lines 228-235: \<open>angle\<close> is advanced first, the point is pushed, then
  \<open>legLength\<close> grows by a quotient of the new angle.
\<close>

function spiral_loop :: "int \<Rightarrow> int \<Rightarrow> real \<Rightarrow> real \<Rightarrow> point list \<Rightarrow> point list" where
  "spiral_loop count i legLength angle points =
     (if i < count then
        (let angle = angle + (spiral_leavesSeparation / legLength + of_int i * 0.0005);
             x = legLength * cos angle + leavesOffset ! 0;
             y = legLength * sin angle + leavesOffset ! 1;
             points = points @ [(x, y)];
             legLength = legLength + (pi * 2 * legLengthFactor) / angle
         in spiral_loop count (i + 1) legLength angle points)
      else points)"
  by pat_completeness auto
termination
  by (relation "measure (\<lambda>(count, i, legLength, angle, points). nat (count - i))") auto

declare spiral_loop.simps [simp del]

definition calculateSpiderfiedPositions :: "int \<Rightarrow> point list" where
  "calculateSpiderfiedPositions count =
     (let points = [];
          legLength = legLengthStart;
          angle = 0
      in spiral_loop count 0 legLength angle points)"

subsection \<open>The loops in closed form\<close>

text \<open>The offset that the circular loop pushes in iteration \<open>k\<close>.\<close>

definition circle_point :: "real \<Rightarrow> nat \<Rightarrow> point" where
  "circle_point theta k =
     (circle_leavesSeparation * cos (theta * real k) + leavesOffset ! 0,
      circle_leavesSeparation * sin (theta * real k) + leavesOffset ! 1)"

text \<open>
  One iteration of the spiral loop on the pair \<open>(legLength, angle)\<close>, and the pair at the
  start of iteration \<open>k\<close>.
\<close>

definition spiral_next :: "nat \<Rightarrow> real \<times> real \<Rightarrow> real \<times> real" where
  "spiral_next k s =
     (let angle = snd s + (spiral_leavesSeparation / fst s + real k * 0.0005)
      in (fst s + (pi * 2 * legLengthFactor) / angle, angle))"

primrec spiral_state :: "nat \<Rightarrow> real \<times> real" where
  "spiral_state 0 = (legLengthStart, 0)"
| "spiral_state (Suc k) = spiral_next k (spiral_state k)"

text \<open>The offset that the spiral loop pushes in iteration \<open>k\<close>.\<close>

definition spiral_point :: "nat \<Rightarrow> point" where
  "spiral_point k =
     (let legLength = fst (spiral_state k);
          angle = snd (spiral_state k) + (spiral_leavesSeparation / legLength + real k * 0.0005)
      in (legLength * cos angle + leavesOffset ! 0, legLength * sin angle + leavesOffset ! 1))"

subsection \<open>Distances\<close>

text \<open>
  The Euclidean distance of two offsets. The anchor of a layout is the offset \<open>(0, 0)\<close>.
\<close>

definition euclid_dist :: "point \<Rightarrow> point \<Rightarrow> real" where
  "euclid_dist p q = sqrt ((fst p - fst q)\<^sup>2 + (snd p - snd q)\<^sup>2)"

subsection \<open>The spiral as the specification words it\<close>

text \<open>
  The recurrence of the specification, written from its words and not from the loop: the
  leg length starts at 25 and grows, after each point, by \<open>(2 * pi * 5)\<close> over the current
  angle; the angle starts at 0 and grows, before point \<open>i\<close>, by 40 over the current leg
  length plus \<open>i * 0.0005\<close>. \<open>spec_legLength i\<close> and \<open>spec_angle i\<close> are the leg length and
  the angle at which point \<open>i\<close> is placed.
\<close>

fun spec_legLength :: "nat \<Rightarrow> real" and spec_angle :: "nat \<Rightarrow> real" where
  "spec_legLength 0 = 25"
| "spec_legLength (Suc i) = spec_legLength i + (2 * pi * 5) / spec_angle i"
| "spec_angle 0 = 0 + ((40 / spec_legLength 0) + real 0 * 0.0005)"
| "spec_angle (Suc i) = spec_angle i + ((40 / spec_legLength (Suc i)) + real (Suc i) * 0.0005)"

subsection \<open>spiderFyCluster: the handler that chooses the layout\<close>

text \<open>
  The callback of \<^verbatim>\<open>getClusterLeaves\<close> in \<^verbatim>\<open>spiderFyCluster\<close> (lines 240-284). The state it
  writes is the data of the \<^verbatim>\<open>spiderfy\<close> source and the two opacities; the map, the error
  and the leaves that the mapping library hands over are arguments. Every early
  \<^verbatim>\<open>return\<close> leaves the state as it was. A leaf keeps its own content (\<open>feature\<close>) and
  receives \<open>iconOffset\<close> and the clicked coordinates.
\<close>

record 'f spiderfy_feature =
  feature :: 'f
  iconOffset :: "point option"
  coordinates :: "real \<times> real"

record 'f map_state =
  spiderfy_data :: "'f spiderfy_feature list"
  clusters_opacity :: real
  unclustered_opacity :: real

text \<open>Reading a JavaScript array: \<^verbatim>\<open>undefined\<close> (here \<open>None\<close>) out of range.\<close>

definition array_get :: "'a list \<Rightarrow> nat \<Rightarrow> 'a option" where
  "array_get xs index = (if index < length xs then Some (xs ! index) else None)"

definition spiderFyCluster ::
  "'f map_state option \<Rightarrow> 'e option \<Rightarrow> 'f list option \<Rightarrow> real \<times> real \<Rightarrow> 'f map_state option" where
  "spiderFyCluster mp error features lngLat =
     (case mp of
        None \<Rightarrow> None
      | Some m \<Rightarrow>
          (case error of
             Some e \<Rightarrow> Some m
           | None \<Rightarrow>
               (case features of
                  None \<Rightarrow> Some m
                | Some fs \<Rightarrow>
                    if length fs > 0 then
                      (let spiderfiedPositions =
                             (if length fs > 10
                              then calculateSpiderfiedPositions (int (length fs))
                              else calculateSpiderfiedPositionsCircle (int (length fs)));
                           geoJson =
                             map (\<lambda>(f, index).
                                    \<lparr>feature = f,
                                     iconOffset = array_get spiderfiedPositions index,
                                     coordinates = lngLat\<rparr>)
                               (zip fs [0..<length fs])
                       in Some (m\<lparr>spiderfy_data := geoJson,
                                  clusters_opacity := 0.6,
                                  unclustered_opacity := 0.5\<rparr>))
                    else Some m)))"

section \<open>Auxiliary lemmas\<close>

subsection \<open>Closed forms of the two loops\<close>

lemma circle_loop_map:
  "0 \<le> i \<Longrightarrow>
   circle_loop count theta i angle points =
     points @ map (circle_point theta) [nat i..<nat count]"
proof (induction count theta i angle points rule: circle_loop.induct)
  case (1 count theta i angle points)
  show ?case
  proof (cases "i < count")
    case True
    have nat_step: "nat (i + 1) = Suc (nat i)"
      using "1.prems" by simp
    have lt: "nat i < nat count"
      using True "1.prems" by simp
    have ih: "circle_loop count theta (i + 1) (theta * of_int i)
                (points @ [circle_point theta (nat i)]) =
              (points @ [circle_point theta (nat i)]) @
                map (circle_point theta) [Suc (nat i)..<nat count]"
      using "1.IH" [OF True refl refl refl] "1.prems" nat_step
      by (simp add: circle_point_def)
    have "circle_loop count theta i angle points =
          circle_loop count theta (i + 1) (theta * of_int i)
            (points @ [circle_point theta (nat i)])"
      using True "1.prems"
      by (subst circle_loop.simps) (simp add: Let_def circle_point_def)
    also have "\<dots> = points @ map (circle_point theta) [nat i..<nat count]"
      using ih lt by (simp add: upt_conv_Cons)
    finally show ?thesis .
  next
    case False
    then have "nat count \<le> nat i" by simp
    with False show ?thesis
      by (subst circle_loop.simps) simp
  qed
qed

lemma circle_closed_form:
  "calculateSpiderfiedPositionsCircle count =
     map (circle_point ((2 * pi) / of_int count)) [0..<nat count]"
  by (simp add: calculateSpiderfiedPositionsCircle_def Let_def circle_loop_map)

lemma spiral_loop_map:
  "0 \<le> i \<Longrightarrow> (legLength, angle) = spiral_state (nat i) \<Longrightarrow>
   spiral_loop count i legLength angle points =
     points @ map spiral_point [nat i..<nat count]"
proof (induction count i legLength angle points rule: spiral_loop.induct)
  case (1 count i legLength angle points)
  show ?case
  proof (cases "i < count")
    case True
    define angle' where "angle' = angle + (spiral_leavesSeparation / legLength + of_int i * 0.0005)"
    define legLength' where "legLength' = legLength + (pi * 2 * legLengthFactor) / angle'"
    define p where "p = (legLength * cos angle' + leavesOffset ! 0,
                         legLength * sin angle' + leavesOffset ! 1)"
    have st: "fst (spiral_state (nat i)) = legLength" "snd (spiral_state (nat i)) = angle"
      using "1.prems"(2) by (simp_all flip: "1.prems"(2))
    have nat_step: "nat (i + 1) = Suc (nat i)"
      using "1.prems"(1) by simp
    have ri: "real (nat i) = of_int i"
      using "1.prems"(1) by simp
    have lt: "nat i < nat count"
      using True "1.prems"(1) by simp
    have p_eq: "p = spiral_point (nat i)"
      by (simp add: p_def spiral_point_def Let_def st ri angle'_def)
    have next_eq: "(legLength', angle') = spiral_state (nat (i + 1))"
      by (simp add: nat_step spiral_next_def Let_def st ri angle'_def legLength'_def)
    have ih: "spiral_loop count (i + 1) legLength' angle' (points @ [p]) =
              (points @ [p]) @ map spiral_point [nat (i + 1)..<nat count]"
    proof (rule "1.IH" [OF True])
      show "angle' = angle + (spiral_leavesSeparation / legLength + of_int i * 0.0005)"
        by (simp add: angle'_def)
      show "legLength * cos angle' + leavesOffset ! 0 = legLength * cos angle' + leavesOffset ! 0"
        by (rule refl)
      show "legLength * sin angle' + leavesOffset ! 1 = legLength * sin angle' + leavesOffset ! 1"
        by (rule refl)
      show "points @ [p] =
            points @ [(legLength * cos angle' + leavesOffset ! 0,
                       legLength * sin angle' + leavesOffset ! 1)]"
        by (simp add: p_def)
      show "legLength' = legLength + pi * 2 * legLengthFactor / angle'"
        by (simp add: legLength'_def)
      show "0 \<le> i + 1" using "1.prems"(1) by simp
      show "(legLength', angle') = spiral_state (nat (i + 1))" by (rule next_eq)
    qed
    have "spiral_loop count i legLength angle points =
          spiral_loop count (i + 1) legLength' angle' (points @ [p])"
      using True
      by (subst spiral_loop.simps) (simp add: Let_def angle'_def legLength'_def p_def)
    also have "\<dots> = points @ map spiral_point [nat i..<nat count]"
      using ih lt by (simp add: upt_conv_Cons nat_step p_eq)
    finally show ?thesis .
  next
    case False
    then have "nat count \<le> nat i" by simp
    with False show ?thesis
      by (subst spiral_loop.simps) simp
  qed
qed

lemma spiral_closed_form:
  "calculateSpiderfiedPositions count = map spiral_point [0..<nat count]"
  by (simp add: calculateSpiderfiedPositions_def Let_def spiral_loop_map)

subsection \<open>The spiral state\<close>

lemma spiral_state_pos: "25 \<le> fst (spiral_state k) \<and> 0 \<le> snd (spiral_state k)"
proof (induction k)
  case 0
  show ?case by (simp add: legLengthStart_def)
next
  case (Suc k)
  define L where "L = fst (spiral_state k)"
  define a where "a = snd (spiral_state k)"
  have L: "25 \<le> L" and a: "0 \<le> a" using Suc by (simp_all add: L_def a_def)
  have q: "0 < 40 / L" using L by simp
  have k: "0 \<le> real k * 0.0005" by simp
  have a': "0 < a + (40 / L + real k * 0.0005)" using a q k by linarith
  have d: "0 \<le> pi * 2 * 5 / (a + (40 / L + real k * 0.0005))"
    using a' by (intro divide_nonneg_pos) simp_all
  have fst_eq: "fst (spiral_state (Suc k)) = L + pi * 2 * 5 / (a + (40 / L + real k * 0.0005))"
    by (simp add: spiral_next_def Let_def spiral_leavesSeparation_def legLengthFactor_def
        L_def a_def)
  have snd_eq: "snd (spiral_state (Suc k)) = a + (40 / L + real k * 0.0005)"
    by (simp add: spiral_next_def Let_def spiral_leavesSeparation_def legLengthFactor_def
        L_def a_def)
  show ?case
    unfolding fst_eq snd_eq using L a' d by linarith
qed

lemma spiral_angle_pos:
  "0 < snd (spiral_state k) + (spiral_leavesSeparation / fst (spiral_state k) + real k * 0.0005)"
proof -
  have L: "25 \<le> fst (spiral_state k)" and a: "0 \<le> snd (spiral_state k)"
    using spiral_state_pos [of k] by simp_all
  have q: "0 < 40 / fst (spiral_state k)" using L by simp
  have k: "0 \<le> real k * 0.0005" by simp
  show ?thesis unfolding spiral_leavesSeparation_def using a q k by linarith
qed

lemma spiral_leg_increasing: "fst (spiral_state k) < fst (spiral_state (Suc k))"
proof -
  have "0 < pi * 2 * legLengthFactor /
     (snd (spiral_state k) + (spiral_leavesSeparation / fst (spiral_state k) + real k * 0.0005))"
    using spiral_angle_pos [of k] by (simp add: legLengthFactor_def)
  then show ?thesis by (simp add: spiral_next_def Let_def)
qed

lemma spiral_point_dist: "euclid_dist (spiral_point k) (0, 0) = fst (spiral_state k)"
proof -
  define L where "L = fst (spiral_state k)"
  define a where "a = snd (spiral_state k) + (spiral_leavesSeparation / L + real k * 0.0005)"
  have L: "0 \<le> L" using spiral_state_pos [of k] by (simp add: L_def)
  have "(L * cos a)\<^sup>2 + (L * sin a)\<^sup>2 = L\<^sup>2 * ((cos a)\<^sup>2 + (sin a)\<^sup>2)"
    by (simp only: power_mult_distrib distrib_left)
  also have "\<dots> = L\<^sup>2" by (simp only: sin_cos_squared_add2 mult_1_right)
  finally have "sqrt ((L * cos a)\<^sup>2 + (L * sin a)\<^sup>2) = L"
    using L by simp
  then show ?thesis
    by (simp add: euclid_dist_def spiral_point_def Let_def leavesOffset_def L_def a_def)
qed

lemma circle_point_dist: "euclid_dist (circle_point theta k) (0, 0) = 80"
proof -
  define a where "a = theta * real k"
  have "(80 * cos a)\<^sup>2 + (80 * sin a)\<^sup>2 = 80\<^sup>2 * ((cos a)\<^sup>2 + (sin a)\<^sup>2)"
    by (simp only: power_mult_distrib distrib_left)
  also have "\<dots> = (80::real)\<^sup>2" by (simp only: sin_cos_squared_add2 mult_1_right)
  finally have "sqrt ((80 * cos a)\<^sup>2 + (80 * sin a)\<^sup>2) = 80"
    by simp
  then show ?thesis
    by (simp add: euclid_dist_def circle_point_def circle_leavesSeparation_def leavesOffset_def
        a_def)
qed

lemma spec_spiral_state:
  "spec_legLength k = fst (spiral_state k) \<and>
   spec_angle k = snd (spiral_state k) +
     (spiral_leavesSeparation / fst (spiral_state k) + real k * 0.0005)"
proof (induction k)
  case 0
  show ?case by (simp add: legLengthStart_def spiral_leavesSeparation_def)
next
  case (Suc k)
  have leg: "spec_legLength (Suc k) = fst (spiral_state (Suc k))"
    using Suc by (simp add: spiral_next_def Let_def legLengthFactor_def mult.commute)
  have "snd (spiral_state (Suc k)) = spec_angle k"
    using Suc by (simp add: spiral_next_def Let_def)
  then have "spec_angle (Suc k) = snd (spiral_state (Suc k)) +
     (spiral_leavesSeparation / fst (spiral_state (Suc k)) + real (Suc k) * 0.0005)"
    using leg by (simp add: spiral_leavesSeparation_def del: spiral_state.simps)
  with leg show ?case by blast
qed

lemma spiral_point_spec:
  "spiral_point k = (spec_legLength k * cos (spec_angle k), spec_legLength k * sin (spec_angle k))"
  using spec_spiral_state [of k]
  by (simp add: spiral_point_def Let_def leavesOffset_def)

lemma circle_points_distinct:
  assumes "i < n" "j < n" "i \<noteq> j"
  shows "circle_point ((2 * pi) / real n) i \<noteq> circle_point ((2 * pi) / real n) j"
proof
  assume eq: "circle_point ((2 * pi) / real n) i = circle_point ((2 * pi) / real n) j"
  define t where "t = (2 * pi) / real n"
  have n: "0 < real n" using assms by simp
  have "sin (t * real i) = sin (t * real j) \<and> cos (t * real i) = cos (t * real j)"
    using eq by (simp add: circle_point_def circle_leavesSeparation_def t_def)
  then obtain k :: int where k: "t * real i = t * real j + 2 * pi * of_int k"
    using sin_cos_eq_iff [of "t * real i" "t * real j"] by blast
  have "2 * pi * real i = 2 * pi * real j + 2 * pi * (of_int k * real n)"
    using k n by (simp add: t_def field_simps)
  then have "2 * pi * real i = 2 * pi * (real j + of_int k * real n)"
    by (simp only: distrib_left)
  then have "real i = real j + of_int k * real n"
    by simp
  then have "real_of_int (int i) = real_of_int (int j + k * int n)"
    by simp
  then have ik: "int i = int j + k * int n"
    by (simp only: of_int_eq_iff)
  have "k = 0"
  proof (rule ccontr)
    assume "k \<noteq> 0"
    then consider "1 \<le> k" | "k \<le> -1" by linarith
    then show False
    proof cases
      case 1
      then have "1 * int n \<le> k * int n" by (intro mult_right_mono) simp_all
      with ik assms show False by simp
    next
      case 2
      then have "k * int n \<le> (-1) * int n" by (intro mult_right_mono) simp_all
      with ik assms show False by simp
    qed
  qed
  with ik assms show False by simp
qed

subsection \<open>The handler's feature list\<close>

lemma array_get_all: "length xs = n \<Longrightarrow> map (array_get xs) [0..<n] = map Some xs"
  by (rule nth_equalityI) (simp_all add: array_get_def)

lemma geoJson_offsets:
  "map (iconOffset \<circ>
          (\<lambda>(f, index). \<lparr>feature = f, iconOffset = array_get ps index, coordinates = c\<rparr>))
     (zip fs [0..<length fs]) =
   map (array_get ps) [0..<length fs]"
  by (rule nth_equalityI) simp_all

text \<open>Without leaves the handler changes nothing.\<close>

lemma handler_no_leaves:
  "spiderFyCluster (Some m) None (Some []) lngLat = Some m"
  by (simp add: spiderFyCluster_def)

subsection \<open>The circular layout and prefixes\<close>

text \<open>The circular layout is not prefix-stable: its step reads \<open>count\<close> through \<open>theta\<close>.\<close>

lemma circle_not_prefix_stable:
  "take (nat 2) (calculateSpiderfiedPositionsCircle 3) \<noteq> calculateSpiderfiedPositionsCircle 2"
proof
  assume eq: "take (nat 2) (calculateSpiderfiedPositionsCircle 3) =
              calculateSpiderfiedPositionsCircle 2"
  have "take (nat 2) (calculateSpiderfiedPositionsCircle 3) ! 1 =
        calculateSpiderfiedPositionsCircle 2 ! 1"
    using eq by (simp only:)
  then have "calculateSpiderfiedPositionsCircle 3 ! 1 = calculateSpiderfiedPositionsCircle 2 ! 1"
    by simp
  then have "circle_point (2 * pi / 3) 1 = circle_point pi 1"
    by (simp add: circle_closed_form eval_nat_numeral)
  then have "sin (2 * pi / 3) = 0"
    by (simp add: circle_point_def circle_leavesSeparation_def)
  moreover have "0 < sin (2 * pi / 3)"
    by (intro sin_gt_zero) (simp_all add: pi_gt_zero)
  ultimately show False by simp
qed

section \<open>The properties of the specification\<close>

text \<open>
  Claim C1. For every \<open>count \<ge> 1\<close> and every index \<open>i\<close> with \<open>0 \<le> i < count\<close>, the \<open>i\<close>-th
  offset of the circular layout is \<open>(r * cos (i * (2 * pi / count)), r * sin (i * (2 * pi / count)))\<close>
  with the radius \<open>r = 80\<close>; for \<open>count = 1\<close> the result is the single offset \<open>(80, 0)\<close>.
\<close>

theorem circle_offsets_formula:
  "(1 \<le> count \<and> int i < count \<longrightarrow>
      calculateSpiderfiedPositionsCircle count ! i =
        (80 * cos (real i * (2 * pi / of_int count)),
         80 * sin (real i * (2 * pi / of_int count)))) \<and>
   calculateSpiderfiedPositionsCircle 1 = [(80, 0)]"
proof -
  have one: "calculateSpiderfiedPositionsCircle 1 = [(80, 0)]"
    by (simp add: circle_closed_form circle_point_def circle_leavesSeparation_def
        leavesOffset_def)
  have nth: "calculateSpiderfiedPositionsCircle count ! i =
        (80 * cos (real i * (2 * pi / of_int count)),
         80 * sin (real i * (2 * pi / of_int count)))"
    if "1 \<le> count" "int i < count"
  proof -
    have "i < nat count" using that by simp
    then have "calculateSpiderfiedPositionsCircle count ! i =
        circle_point ((2 * pi) / of_int count) i"
      by (simp add: circle_closed_form)
    then show ?thesis
      by (simp add: circle_point_def circle_leavesSeparation_def leavesOffset_def mult.commute)
  qed
  from one nth show ?thesis by blast
qed

theorem circle_offsets_formula_witness:
  "calculateSpiderfiedPositionsCircle 4 ! 1 = (0, 80) \<and>
   calculateSpiderfiedPositionsCircle 1 = [(80, 0)]"
  using circle_offsets_formula [of 4 1] by simp

text \<open>
  Claim C2. For every \<open>count \<ge> 1\<close>, the \<open>i\<close>-th offset of the spiral layout is
  \<open>(L\<^sub>i * cos a\<^sub>i, L\<^sub>i * sin a\<^sub>i)\<close>, where the leg length \<open>L\<close> and the angle \<open>a\<close> follow the
  recurrence of the specification (\<open>spec_legLength\<close>, \<open>spec_angle\<close>): the loop of the source
  and the recurrence compute the same offsets.
\<close>

theorem spiral_offsets_recurrence:
  "1 \<le> count \<Longrightarrow> int i < count \<Longrightarrow>
   calculateSpiderfiedPositions count ! i =
     (spec_legLength i * cos (spec_angle i), spec_legLength i * sin (spec_angle i))"
  by (simp add: spiral_closed_form spiral_point_spec)

theorem spiral_offsets_recurrence_witness:
  "calculateSpiderfiedPositions 2 ! 1 =
     ((25 + 2 * pi * 5 / (8 / 5)) * cos (8 / 5 + (40 / (25 + 2 * pi * 5 / (8 / 5)) + 1 / 2000)),
      (25 + 2 * pi * 5 / (8 / 5)) * sin (8 / 5 + (40 / (25 + 2 * pi * 5 / (8 / 5)) + 1 / 2000)))"
  using spiral_offsets_recurrence [of 2 1] by simp

text \<open>
  Claim C3. For every \<open>count > 1\<close> and every index \<open>i\<close> with \<open>0 \<le> i < count - 1\<close>, the offset
  of the spiral layout at index \<open>i + 1\<close> is strictly farther from the anchor \<open>(0, 0)\<close> than
  the offset at index \<open>i\<close>; so the two offsets differ.
\<close>

theorem spiral_radius_strictly_increasing:
  "1 < count \<Longrightarrow> int i < count - 1 \<Longrightarrow>
   euclid_dist (calculateSpiderfiedPositions count ! i) (0, 0) <
     euclid_dist (calculateSpiderfiedPositions count ! Suc i) (0, 0) \<and>
   calculateSpiderfiedPositions count ! i \<noteq> calculateSpiderfiedPositions count ! Suc i"
proof -
  assume c: "1 < count" and i: "int i < count - 1"
  have lt: "i < nat count" "Suc i < nat count"
    using c i by simp_all
  have pts: "calculateSpiderfiedPositions count ! i = spiral_point i"
            "calculateSpiderfiedPositions count ! Suc i = spiral_point (Suc i)"
    using lt by (simp_all add: spiral_closed_form del: upt_Suc)
  have d: "euclid_dist (spiral_point i) (0, 0) < euclid_dist (spiral_point (Suc i)) (0, 0)"
    using spiral_leg_increasing [of i] by (simp only: spiral_point_dist)
  then have "spiral_point i \<noteq> spiral_point (Suc i)"
    by auto
  with d show ?thesis
    by (simp only: pts) simp
qed

theorem spiral_radius_strictly_increasing_witness:
  "euclid_dist (calculateSpiderfiedPositions 2 ! 0) (0, 0) <
     euclid_dist (calculateSpiderfiedPositions 2 ! Suc 0) (0, 0) \<and>
   calculateSpiderfiedPositions 2 ! 0 \<noteq> calculateSpiderfiedPositions 2 ! Suc 0"
  using spiral_radius_strictly_increasing [of 2 0] by simp

text \<open>
  Claim C4. For every \<open>count \<ge> 1\<close>, the circular and the spiral layout each return exactly
  \<open>count\<close> offsets.
\<close>

theorem layouts_length:
  "1 \<le> count \<Longrightarrow>
   int (length (calculateSpiderfiedPositionsCircle count)) = count \<and>
   int (length (calculateSpiderfiedPositions count)) = count"
  by (simp add: circle_closed_form spiral_closed_form)

theorem layouts_length_witness:
  "int (length (calculateSpiderfiedPositionsCircle 3)) = 3 \<and>
   int (length (calculateSpiderfiedPositions 3)) = 3"
  using layouts_length [of 3] by simp

text \<open>
  Claim C5. The handler chooses the layout by comparing the number of leaves with 10:
  up to and including 10 leaves the offsets it attaches are those of the circular layout,
  above 10 those of the spiral layout. The handler reaches the choice only when there is
  at least one leaf (the guard \<^verbatim>\<open>features.length > 0\<close>); leaf \<open>k\<close> receives offset \<open>k\<close>.
\<close>

theorem handler_selects_by_threshold:
  "fs \<noteq> [] \<Longrightarrow>
   (\<exists>m'. spiderFyCluster (Some m) None (Some fs) lngLat = Some m' \<and>
      (length fs \<le> 10 \<longrightarrow>
         map iconOffset (spiderfy_data m') =
           map Some (calculateSpiderfiedPositionsCircle (int (length fs)))) \<and>
      (10 < length fs \<longrightarrow>
         map iconOffset (spiderfy_data m') =
           map Some (calculateSpiderfiedPositions (int (length fs)))))"
proof -
  assume ne: "fs \<noteq> []"
  have lc: "length (calculateSpiderfiedPositionsCircle (int (length fs))) = length fs"
    by (simp add: circle_closed_form)
  have ls: "length (calculateSpiderfiedPositions (int (length fs))) = length fs"
    by (simp add: spiral_closed_form)
  show ?thesis
  proof (cases "10 < length fs")
    case True
    then show ?thesis
      using ne by (simp add: spiderFyCluster_def Let_def geoJson_offsets array_get_all [OF ls])
  next
    case False
    then show ?thesis
      using ne by (simp add: spiderFyCluster_def Let_def geoJson_offsets array_get_all [OF lc])
  qed
qed

theorem handler_selects_by_threshold_witness:
  "(\<exists>m'. spiderFyCluster (Some \<lparr>spiderfy_data = [], clusters_opacity = 1, unclustered_opacity = 1\<rparr>)
            (None :: unit option) (Some (replicate 10 ())) (0, 0) = Some m' \<and>
         map iconOffset (spiderfy_data m') = map Some (calculateSpiderfiedPositionsCircle 10)) \<and>
   (\<exists>m'. spiderFyCluster (Some \<lparr>spiderfy_data = [], clusters_opacity = 1, unclustered_opacity = 1\<rparr>)
            (None :: unit option) (Some (replicate 11 ())) (0, 0) = Some m' \<and>
         map iconOffset (spiderfy_data m') = map Some (calculateSpiderfiedPositions 11))"
  using handler_selects_by_threshold [of "replicate 10 ()"
          "\<lparr>spiderfy_data = [], clusters_opacity = 1, unclustered_opacity = 1\<rparr>" "(0, 0)"]
        handler_selects_by_threshold [of "replicate 11 ()"
          "\<lparr>spiderfy_data = [], clusters_opacity = 1, unclustered_opacity = 1\<rparr>" "(0, 0)"]
  by simp

text \<open>
  Claim C6. For every \<open>count < 1\<close>, zero and the negative counts included, both layout
  functions return the empty sequence. Nothing in either function can throw: the model
  has no error value because the source has no operation that raises.
\<close>

theorem layouts_empty_below_one:
  "count < 1 \<Longrightarrow>
   calculateSpiderfiedPositionsCircle count = [] \<and> calculateSpiderfiedPositions count = []"
  by (simp add: circle_closed_form spiral_closed_form)

theorem layouts_empty_below_one_witness:
  "calculateSpiderfiedPositionsCircle 0 = [] \<and> calculateSpiderfiedPositions 0 = [] \<and>
   calculateSpiderfiedPositionsCircle (- 3) = [] \<and> calculateSpiderfiedPositions (- 3) = []"
  using layouts_empty_below_one [of 0] layouts_empty_below_one [of "- 3"] by simp

text \<open>
  Claim C7. For every \<open>count \<ge> 1\<close>, every offset of the circular layout lies at distance 80
  from the anchor \<open>(0, 0)\<close>. In exact arithmetic the distance is 80 itself.
\<close>

theorem circle_fixed_radius:
  "1 \<le> count \<Longrightarrow> p \<in> set (calculateSpiderfiedPositionsCircle count) \<Longrightarrow>
   euclid_dist p (0, 0) = 80"
  by (auto simp add: circle_closed_form circle_point_dist)

theorem circle_fixed_radius_witness:
  "euclid_dist (- 80, 0) (0, 0) = 80"
proof -
  have "calculateSpiderfiedPositionsCircle 2 = [(80, 0), (- 80, 0)]"
    by (simp add: circle_closed_form circle_point_def circle_leavesSeparation_def
        leavesOffset_def eval_nat_numeral)
  then have "(- 80, 0) \<in> set (calculateSpiderfiedPositionsCircle 2)"
    by simp
  then show ?thesis
    using circle_fixed_radius [of 2 "(- 80, 0)"] by simp
qed

text \<open>
  Claim C8. For every \<open>count \<ge> 2\<close> and distinct indices \<open>i\<close>, \<open>j\<close> below \<open>count\<close>, the offsets of
  the circular layout at \<open>i\<close> and \<open>j\<close> are at non-zero distance, and the angles
  \<open>theta * i\<close> and \<open>theta * j\<close> of the two leaves differ.
\<close>

theorem circle_points_apart:
  "2 \<le> count \<Longrightarrow> int i < count \<Longrightarrow> int j < count \<Longrightarrow> i \<noteq> j \<Longrightarrow>
   euclid_dist (calculateSpiderfiedPositionsCircle count ! i)
               (calculateSpiderfiedPositionsCircle count ! j) \<noteq> 0 \<and>
   (2 * pi / of_int count) * real i \<noteq> (2 * pi / of_int count) * real j"
proof -
  assume c: "2 \<le> count" and i: "int i < count" and j: "int j < count" and ij: "i \<noteq> j"
  define n where "n = nat count"
  have n: "i < n" "j < n" "of_int count = real n"
    using c i j by (simp_all add: n_def)
  have pts: "calculateSpiderfiedPositionsCircle count ! i = circle_point ((2 * pi) / real n) i"
            "calculateSpiderfiedPositionsCircle count ! j = circle_point ((2 * pi) / real n) j"
    using n by (simp_all add: circle_closed_form flip: n_def)
  have ne: "circle_point ((2 * pi) / real n) i \<noteq> circle_point ((2 * pi) / real n) j"
    using n ij by (intro circle_points_distinct)
  have d: "euclid_dist p q = 0 \<longleftrightarrow> p = q" for p q :: point
    by (cases p, cases q) (simp add: euclid_dist_def sum_power2_eq_zero_iff)
  have ang: "(2 * pi / real n) * real i \<noteq> (2 * pi / real n) * real j"
    using n ij by simp
  show ?thesis
    using ne ang by (simp add: pts d n(3))
qed

theorem circle_points_apart_witness:
  "euclid_dist (calculateSpiderfiedPositionsCircle 2 ! 0)
               (calculateSpiderfiedPositionsCircle 2 ! 1) \<noteq> 0 \<and>
   (2 * pi / of_int 2) * real 0 \<noteq> (2 * pi / of_int 2) * real 1"
  using circle_points_apart [of 2 0 1] by simp

text \<open>
  Claim C10. The spiral layout is prefix-stable: for \<open>0 \<le> n \<le> m\<close>, the first \<open>n\<close> offsets of
  the layout for \<open>m\<close> are the layout for \<open>n\<close>.
\<close>

theorem spiral_prefix_stable:
  "0 \<le> n \<Longrightarrow> n \<le> m \<Longrightarrow>
   take (nat n) (calculateSpiderfiedPositions m) = calculateSpiderfiedPositions n"
proof -
  assume "0 \<le> n" and "n \<le> m"
  then have "min (nat n) (nat m) = nat n" by simp
  then show ?thesis
    by (simp add: spiral_closed_form take_map)
qed

theorem spiral_prefix_stable_witness:
  "take (nat 11) (calculateSpiderfiedPositions 15) = calculateSpiderfiedPositions 11"
  using spiral_prefix_stable [of 11 15] by simp

end
